theory Spec2Isabelle
  imports Main
begin

section \<open>Python strings, values and exceptions\<close>

text \<open>
  The program is \<^verbatim>\<open>src/main.py\<close>. A Python \<^verbatim>\<open>str\<close> is a sequence of Unicode code
  points, so a string is modelled as a list of code points (\<open>nat\<close>). An ASCII literal of
  the source is written \<open>asc ''...''\<close>; a literal with Chinese characters is written as the
  list of its code points, with the reading given beside it.
\<close>

type_synonym pystr = "nat list"

definition asc :: "string \<Rightarrow> pystr" where
  "asc s = map of_char s"

text \<open>The exceptions the modelled code can raise; \<open>ServiceFailure\<close> stands for whatever
  the SDK client raises.\<close>

datatype py_error = ValueError | IndexError | KeyError | TypeError | ServiceFailure

text \<open>Scalar values held in the dictionaries (\<^verbatim>\<open>None\<close>, \<^verbatim>\<open>int\<close>, \<^verbatim>\<open>str\<close>), dictionaries with
  string keys in insertion order, and the argument shapes \<^verbatim>\<open>Union[str, Dict]\<close> and
  \<^verbatim>\<open>Union[X, List[X]]\<close> of the type hints. \<open>Other\<close> is an object that is neither a string
  nor a dictionary.\<close>

datatype pyval = PNone | PInt int | PStr pystr

type_synonym pydict = "(pystr \<times> pyval) list"

datatype pyarg = Str pystr | Dict pydict | Other

datatype 'a one_or_list = Single 'a | Multiple "'a list"

subsection \<open>Character classes of the interpreter\<close>

text \<open>\<^verbatim>\<open>str.isspace\<close> per code point, as used by \<^verbatim>\<open>str.strip()\<close> and by \<^verbatim>\<open>int()\<close> for
  non-ASCII input (CPython's \<^verbatim>\<open>_PyUnicode_IsWhitespace\<close>).\<close>

definition is_space :: "nat \<Rightarrow> bool" where
  "is_space c \<longleftrightarrow>
     (0x9 \<le> c \<and> c \<le> 0xD) \<or> (0x1C \<le> c \<and> c \<le> 0x20) \<or> c = 0x85 \<or> c = 0xA0 \<or> c = 0x1680 \<or>
     (0x2000 \<le> c \<and> c \<le> 0x200A) \<or> c = 0x2028 \<or> c = 0x2029 \<or> c = 0x202F \<or> c = 0x205F \<or>
     c = 0x3000"

text \<open>The ASCII-only \<^verbatim>\<open>Py_ISSPACE\<close> that \<^verbatim>\<open>int()\<close> uses on its converted buffer.\<close>

definition c_isspace :: "nat \<Rightarrow> bool" where
  "c_isspace c \<longleftrightarrow> (0x9 \<le> c \<and> c \<le> 0xD) \<or> c = 0x20"

text \<open>The code points of the non-ASCII characters with decimal value 0 (general category
  Nd) in the Unicode database 14.0.0 of CPython 3.11; each starts a run of ten digits
  0..9. Both \<^verbatim>\<open>\d\<close> of \<^verbatim>\<open>re\<close> and \<^verbatim>\<open>int()\<close> read this table.\<close>

definition decimal_zeros :: "nat list" where
  "decimal_zeros =
    [0x660, 0x6F0, 0x7C0, 0x966, 0x9E6, 0xA66, 0xAE6, 0xB66, 0xBE6, 0xC66, 0xCE6, 0xD66,
     0xDE6, 0xE50, 0xED0, 0xF20, 0x1040, 0x1090, 0x17E0, 0x1810, 0x1946, 0x19D0, 0x1A80,
     0x1A90, 0x1B50, 0x1BB0, 0x1C40, 0x1C50, 0xA620, 0xA8D0, 0xA900, 0xA9D0, 0xA9F0,
     0xAA50, 0xABF0, 0xFF10, 0x104A0, 0x10D30, 0x11066, 0x110F0, 0x11136, 0x111D0,
     0x112F0, 0x11450, 0x114D0, 0x11650, 0x116C0, 0x11730, 0x118E0, 0x11950, 0x11C50,
     0x11D50, 0x11DA0, 0x16A60, 0x16AC0, 0x16B50, 0x1D7CE, 0x1D7D8, 0x1D7E2, 0x1D7EC,
     0x1D7F6, 0x1E140, 0x1E2F0, 0x1E950, 0x1FBF0]"

definition to_decimal :: "nat \<Rightarrow> nat option" where
  "to_decimal c =
     (if c < 128 then (if 48 \<le> c \<and> c \<le> 57 then Some (c - 48) else None)
      else (case filter (\<lambda>z. z \<le> c \<and> c < z + 10) decimal_zeros of
              [] \<Rightarrow> None
            | z # _ \<Rightarrow> Some (c - z)))"

definition is_decimal :: "nat \<Rightarrow> bool" where
  "is_decimal c \<longleftrightarrow> to_decimal c \<noteq> None"

subsection \<open>String methods\<close>

text \<open>\<^verbatim>\<open>s.startswith(p)\<close>.\<close>

fun startswith :: "pystr \<Rightarrow> pystr \<Rightarrow> bool" where
  "startswith s [] = True"
| "startswith [] (p # ps) = False"
| "startswith (c # cs) (p # ps) = (c = p \<and> startswith cs ps)"

text \<open>\<^verbatim>\<open>sub in s\<close>.\<close>

fun py_in :: "pystr \<Rightarrow> pystr \<Rightarrow> bool" where
  "py_in sub [] = (sub = [])"
| "py_in sub (c # cs) = (startswith (c # cs) sub \<or> py_in sub cs)"

text \<open>\<^verbatim>\<open>s.split(sep)\<close> for a separator of one character, which is what every call of the
  source passes (\<^verbatim>\<open>":"\<close>, \<^verbatim>\<open>","\<close>, \<^verbatim>\<open>"\n"\<close>). The result is never empty.\<close>

fun py_split :: "nat \<Rightarrow> pystr \<Rightarrow> pystr list" where
  "py_split sep [] = [[]]"
| "py_split sep (c # cs) =
     (if c = sep then [] # py_split sep cs
      else (case py_split sep cs of
              [] \<Rightarrow> [[c]]
            | p # ps \<Rightarrow> (c # p) # ps))"

text \<open>\<^verbatim>\<open>s.strip()\<close>.\<close>

definition py_strip :: "pystr \<Rightarrow> pystr" where
  "py_strip s = rev (dropWhile is_space (rev (dropWhile is_space s)))"

text \<open>\<^verbatim>\<open>s.replace(old, new)\<close>: every occurrence of \<open>old\<close>, found from the left and not
  overlapping, is replaced.\<close>

function py_replace :: "pystr \<Rightarrow> pystr \<Rightarrow> pystr \<Rightarrow> pystr" where
  "py_replace [] old new = (if old = [] then new else [])"
| "py_replace (c # cs) old new =
     (if old = [] then new @ c # py_replace cs old new
      else if startswith (c # cs) old then new @ py_replace (drop (length old) (c # cs)) old new
      else c # py_replace cs old new)"
  by pat_completeness auto
termination
  by (relation "measure (\<lambda>(s, old, new). length s)") (auto simp: neq_Nil_conv)

subsection \<open>Integers and their decimal text\<close>

text \<open>CPython's default limit on the number of digits in a conversion between \<^verbatim>\<open>int\<close> and
  \<^verbatim>\<open>str\<close> (\<^verbatim>\<open>sys.int_info.default_max_str_digits\<close>).\<close>

definition int_max_str_digits :: nat where
  "int_max_str_digits = 4300"

text \<open>\<^verbatim>\<open>int(s)\<close> for a string. The string is first converted character by character
  (\<^verbatim>\<open>_PyUnicode_TransformDecimalAndSpaceToASCII\<close>): ASCII stays, other white space
  becomes a blank, other decimal digits become ASCII digits, anything else becomes \<^verbatim>\<open>?\<close>.
  Then \<^verbatim>\<open>PyLong_FromString\<close> skips white space, reads a sign, scans digits in which single
  underscores may separate digits, and skips white space up to the end.\<close>

definition int_ascii :: "nat \<Rightarrow> nat" where
  "int_ascii ch =
     (if ch < 127 then ch
      else if is_space ch then 0x20
      else (case to_decimal ch of Some d \<Rightarrow> 48 + d | None \<Rightarrow> 63))"

text \<open>The scanning loop: the value and number of the digits read so far, and whether the
  previous character was an underscore. It stops at the first character that is neither;
  a doubled or trailing underscore is an error (\<open>None\<close>).\<close>

fun scan_num :: "nat list \<Rightarrow> nat \<Rightarrow> nat \<Rightarrow> bool \<Rightarrow> (nat \<times> nat \<times> nat list) option" where
  "scan_num [] v n und = (if und then None else Some (v, n, []))"
| "scan_num (c # cs) v n und =
     (if 48 \<le> c \<and> c \<le> 57 then scan_num cs (10 * v + (c - 48)) (Suc n) False
      else if c = 95 then (if und then None else scan_num cs v n True)
      else if und then None
      else Some (v, n, c # cs))"

definition py_int :: "pystr \<Rightarrow> py_error + int" where
  "py_int s =
     (let t1 = dropWhile c_isspace (map int_ascii s);
          neg = (case t1 of [] \<Rightarrow> False | c # _ \<Rightarrow> c = 45);
          t2 = (case t1 of [] \<Rightarrow> [] | c # r \<Rightarrow> if c = 43 \<or> c = 45 then r else t1)
      in if startswith t2 [95] then Inl ValueError
         else (case scan_num t2 0 0 False of
                 None \<Rightarrow> Inl ValueError
               | Some (v, n, rest) \<Rightarrow>
                   if int_max_str_digits < n then Inl ValueError
                   else if n = 0 then Inl ValueError
                   else if dropWhile c_isspace rest \<noteq> [] then Inl ValueError
                   else Inr (if neg then - int v else int v)))"

text \<open>\<^verbatim>\<open>str(n)\<close> and \<^verbatim>\<open>f"{n}"\<close> for an integer: the decimal digits, refused beyond the
  digit limit.\<close>

fun nat_digits :: "nat \<Rightarrow> pystr" where
  "nat_digits n = (if n < 10 then [48 + n] else nat_digits (n div 10) @ [48 + n mod 10])"

declare nat_digits.simps [simp del]

definition py_str_int :: "int \<Rightarrow> py_error + pystr" where
  "py_str_int n =
     (let ds = nat_digits (nat \<bar>n\<bar>)
      in if int_max_str_digits < length ds then Inl ValueError
         else Inr (if n < 0 then 45 # ds else ds))"

text \<open>\<^verbatim>\<open>str(v)\<close> for a scalar.\<close>

fun py_str :: "pyval \<Rightarrow> py_error + pystr" where
  "py_str PNone = Inr (asc ''None'')"
| "py_str (PInt n) = py_str_int n"
| "py_str (PStr s) = Inr s"

section \<open>The normalizers\<close>

subsection \<open>\<^verbatim>\<open>parse_cache_rule\<close>\<close>

definition parse_cache_rule :: "pyarg \<Rightarrow> py_error + pydict" where
  "parse_cache_rule rule =
     (case rule of
        Dict d \<Rightarrow> Inr d
      | Str s \<Rightarrow>
          (case py_split 58 s of
             [pattern, ttl] \<Rightarrow>
               (case py_int ttl of
                  Inl e \<Rightarrow> Inl e
                | Inr n \<Rightarrow>
                    Inr [(asc ''path_pattern'',
                            PStr (if startswith pattern (asc ''/'') then pattern
                                  else asc ''/'' @ pattern)),
                         (asc ''ttl'', PInt n)])
           | _ \<Rightarrow> Inl ValueError)
      | Other \<Rightarrow> Inl ValueError)"

subsection \<open>\<^verbatim>\<open>parse_header\<close>\<close>

definition parse_header :: "pyarg \<Rightarrow> py_error + pydict" where
  "parse_header header =
     (case header of
        Dict d \<Rightarrow> Inr d
      | Str s \<Rightarrow>
          (case py_split 58 s of
             [key, val] \<Rightarrow>
               Inr [(asc ''key'', PStr (py_strip key)), (asc ''value'', PStr (py_strip val))]
           | _ \<Rightarrow> Inl ValueError)
      | Other \<Rightarrow> Inl ValueError)"

subsection \<open>\<^verbatim>\<open>parse_source_info\<close>\<close>

text \<open>The pattern \<^verbatim>\<open>^\d{1,3}(\.\d{1,3}){3}$\<close> under \<^verbatim>\<open>re.match\<close>. \<open>digit_group\<close> is
  \<^verbatim>\<open>\d{1,3}\<close>: it takes as many of the next three characters as are digits and returns
  what follows. Giving a digit back never helps here, since the next pattern item
  (\<^verbatim>\<open>\.\<close> or \<^verbatim>\<open>$\<close>) does not accept a digit. \<^verbatim>\<open>$\<close> accepts the end of the string and also
  the position before a newline that ends the string.\<close>

definition digit_group :: "pystr \<Rightarrow> pystr option" where
  "digit_group s =
     (let n = length (takeWhile is_decimal (take 3 s))
      in if n = 0 then None else Some (drop n s))"

definition dot_then_group :: "pystr \<Rightarrow> pystr option" where
  "dot_then_group s = (case s of [] \<Rightarrow> None | c # r \<Rightarrow> if c = 46 then digit_group r else None)"

definition ip_regex_match :: "pystr \<Rightarrow> bool" where
  "ip_regex_match content =
     (case Option.bind (Option.bind (Option.bind (digit_group content) dot_then_group)
                          dot_then_group) dot_then_group of
        None \<Rightarrow> False
      | Some r \<Rightarrow> r = [] \<or> r = [10])"

definition parse_source_info :: "pyarg \<Rightarrow> py_error + pydict" where
  "parse_source_info source =
     (case source of
        Dict d \<Rightarrow> Inr d
      | Str s \<Rightarrow>
          if startswith s (asc ''oss://'') then
            Inr [(asc ''type'', PStr (asc ''oss'')),
                 (asc ''content'', PStr (py_replace s (asc ''oss://'') [])),
                 (asc ''port'', PInt 80)]
          else
            (case py_split 58 s of
               [] \<Rightarrow> Inl IndexError
             | content # rest \<Rightarrow>
                 (case (case rest of [] \<Rightarrow> Inr 80 | p # _ \<Rightarrow> py_int p) of
                    Inl e \<Rightarrow> Inl e
                  | Inr port \<Rightarrow>
                      Inr [(asc ''type'',
                              PStr (if ip_regex_match content then asc ''ipaddr''
                                    else asc ''domain'')),
                           (asc ''content'', PStr content),
                           (asc ''port'', PInt port)]))
      | Other \<Rightarrow> Inl ValueError)"

text \<open>\<^verbatim>\<open>d[k]\<close> on a dictionary.\<close>

definition getitem :: "pydict \<Rightarrow> pystr \<Rightarrow> py_error + pyval" where
  "getitem d k = (case map_of d k of None \<Rightarrow> Inl KeyError | Some v \<Rightarrow> Inr v)"

section \<open>The operations on the service\<close>

text \<open>The SDK client is outside the program. A request records the values the code
  hands over: the code sends \<^verbatim>\<open>str(parsed_sources)\<close> and \<^verbatim>\<open>json.dumps([config])\<close>, and the
  request here holds the value that is serialised (the origin descriptors; the function
  name and its argument list). The client is a parameter: given the requests made so
  far and a new request it returns normally (\<open>None\<close>) or raises.\<close>

datatype request =
    AddCdnDomainRequest pystr "pydict list" pystr
  | BatchSetCdnDomainConfigRequest pystr pystr "pydict list"

type_synonym client = "request list \<Rightarrow> request \<Rightarrow> py_error option"

definition call_client :: "client \<Rightarrow> request list \<Rightarrow> request \<Rightarrow> request list \<times> (py_error + unit)" where
  "call_client cl tr req =
     (tr @ [req], (case cl tr req of Some e \<Rightarrow> Inl e | None \<Rightarrow> Inr ()))"

text \<open>A list comprehension over a function that may raise: the first exception ends it.\<close>

fun map_result :: "('a \<Rightarrow> py_error + 'b) \<Rightarrow> 'a list \<Rightarrow> py_error + 'b list" where
  "map_result f [] = Inr []"
| "map_result f (x # xs) =
     (case f x of
        Inl e \<Rightarrow> Inl e
      | Inr y \<Rightarrow> (case map_result f xs of Inl e \<Rightarrow> Inl e | Inr ys \<Rightarrow> Inr (y # ys)))"

text \<open>\<^verbatim>\<open>if isinstance(x, (str, dict)): x = [x]\<close>, then iteration over \<open>x\<close>; an object
  that is no string, dictionary or list is taken to be one that cannot be iterated.\<close>

definition as_list :: "pyarg one_or_list \<Rightarrow> py_error + pyarg list" where
  "as_list x =
     (case x of
        Single Other \<Rightarrow> Inl TypeError
      | Single a \<Rightarrow> Inr [a]
      | Multiple xs \<Rightarrow> Inr xs)"

text \<open>Whether \<^verbatim>\<open>str\<close>, \<^verbatim>\<open>repr\<close> or \<^verbatim>\<open>json.dumps\<close> of a value returns: an integer beyond the
  digit limit makes each of them raise \<^verbatim>\<open>ValueError\<close>.\<close>

definition repr_ok :: "pyval \<Rightarrow> bool" where
  "repr_ok v = (case v of PInt n \<Rightarrow> py_str_int n \<noteq> Inl ValueError | _ \<Rightarrow> True)"

definition dicts_repr_ok :: "pydict list \<Rightarrow> bool" where
  "dicts_repr_ok ds = list_all (\<lambda>d. list_all (\<lambda>kv. repr_ok (snd kv)) d) ds"

definition kw_accel_type :: pystr where
  \<comment> \<open>jia su lei xing, acceleration type\<close>
  "kw_accel_type = [0x52A0, 0x901F, 0x7C7B, 0x578B]"

definition kw_big_download :: pystr where
  \<comment> \<open>da wen jian xia zai, large file download\<close>
  "kw_big_download = [0x5927, 0x6587, 0x4EF6, 0x4E0B, 0x8F7D]"

definition kw_image_small_file :: pystr where
  \<comment> \<open>tu pian xiao wen jian, images and small files\<close>
  "kw_image_small_file = [0x56FE, 0x7247, 0x5C0F, 0x6587, 0x4EF6]"

definition kw_small_file :: pystr where
  \<comment> \<open>xiao wen jian, small files\<close>
  "kw_small_file = [0x5C0F, 0x6587, 0x4EF6]"

definition kw_audio_video :: pystr where
  \<comment> \<open>shi yin pin, video and audio\<close>
  "kw_audio_video = [0x89C6, 0x97F3, 0x9891]"

definition kw_live :: pystr where
  \<comment> \<open>zhi bo, live broadcast\<close>
  "kw_live = [0x76F4, 0x64AD]"

definition kw_origin_type :: pystr where
  \<comment> \<open>yuan zhan lei xing, origin type\<close>
  "kw_origin_type = [0x6E90, 0x7AD9, 0x7C7B, 0x578B]"

definition kw_ip_address :: pystr where
  \<comment> \<open>IP di zhi, IP address\<close>
  "kw_ip_address = [0x49, 0x50, 0x5730, 0x5740]"

definition kw_port :: pystr where
  \<comment> \<open>duan kou, port\<close>
  "kw_port = [0x7AEF, 0x53E3]"

definition kw_cache :: pystr where
  \<comment> \<open>huan cun, cache\<close>
  "kw_cache = [0x7F13, 0x5B58]"

definition kw_image :: pystr where
  \<comment> \<open>tu pian, image\<close>
  "kw_image = [0x56FE, 0x7247]"

definition kw_video :: pystr where
  \<comment> \<open>shi pin, video\<close>
  "kw_video = [0x89C6, 0x9891]"

definition kw_hour :: pystr where
  \<comment> \<open>xiao shi, hour\<close>
  "kw_hour = [0x5C0F, 0x65F6]"

definition kw_day :: pystr where
  \<comment> \<open>tian, day\<close>
  "kw_day = [0x5929]"

definition msg_no_domain :: pystr where
  \<comment> \<open>no domain name was found in the text\<close>
  "msg_no_domain =
     [0x672A, 0x80FD, 0x5728, 0x6587, 0x672C, 0x4E2D,
      0x627E, 0x5230, 0x57DF, 0x540D, 0x4FE1, 0x606F]"

definition msg_done :: pystr where
  \<comment> \<open>CDN configuration completed, a full-width colon, a newline\<close>
  "msg_done = [0x5DF2, 0x5B8C, 0x6210, 0x43, 0x44, 0x4E, 0x914D, 0x7F6E, 0xFF1A, 0xA]"

definition msg_domain :: pystr where
  \<comment> \<open>yu ming, domain, and a blank\<close>
  "msg_domain = [0x57DF, 0x540D, 0x20]"

definition msg_added :: pystr where
  \<comment> \<open>a blank and tian jia cheng gong, added successfully\<close>
  "msg_added = [0x20, 0x6DFB, 0x52A0, 0x6210, 0x529F]"

definition msg_cache_set :: pystr where
  \<comment> \<open>a blank and: cache policy set successfully\<close>
  "msg_cache_set = [0x20, 0x7F13, 0x5B58, 0x7B56, 0x7565, 0x8BBE, 0x7F6E, 0x6210, 0x529F]"

subsection \<open>\<^verbatim>\<open>add_cdn_domain\<close>\<close>

definition add_cdn_domain ::
  "client \<Rightarrow> request list \<Rightarrow> pystr \<Rightarrow> pyarg one_or_list \<Rightarrow> pystr \<Rightarrow> request list \<times> (py_error + pystr)" where
  "add_cdn_domain cl tr domain_name sources cdn_type =
     (case as_list sources of
        Inl e \<Rightarrow> (tr, Inl e)
      | Inr srcs \<Rightarrow>
          (case map_result parse_source_info srcs of
             Inl e \<Rightarrow> (tr, Inl e)
           | Inr parsed_sources \<Rightarrow>
               if \<not> dicts_repr_ok parsed_sources then (tr, Inl ValueError)
               else
                 (case call_client cl tr (AddCdnDomainRequest domain_name parsed_sources cdn_type) of
                    (tr', Inl e) \<Rightarrow> (tr', Inl e)
                  | (tr', Inr _) \<Rightarrow> (tr', Inr (msg_domain @ domain_name @ msg_added)))))"

subsection \<open>\<^verbatim>\<open>set_cdn_cache\<close>\<close>

text \<open>The two argument records that one parsed rule contributes.\<close>

definition rule_args :: "pydict \<Rightarrow> py_error + pydict list" where
  "rule_args rule =
     (case getitem rule (asc ''ttl'') of
        Inl e \<Rightarrow> Inl e
      | Inr ttl \<Rightarrow>
          (case py_str ttl of
             Inl e \<Rightarrow> Inl e
           | Inr t \<Rightarrow>
               (case getitem rule (asc ''path_pattern'') of
                  Inl e \<Rightarrow> Inl e
                | Inr p \<Rightarrow>
                    Inr [[(asc ''argName'', PStr (asc ''ttl'')), (asc ''argValue'', PStr t)],
                         [(asc ''argName'', PStr (asc ''path'')), (asc ''argValue'', p)]])))"

definition set_cdn_cache ::
  "client \<Rightarrow> request list \<Rightarrow> pystr \<Rightarrow> pyarg one_or_list \<Rightarrow> request list \<times> (py_error + pystr)" where
  "set_cdn_cache cl tr domain_name cache_rules =
     (case as_list cache_rules of
        Inl e \<Rightarrow> (tr, Inl e)
      | Inr rules \<Rightarrow>
          (case map_result parse_cache_rule rules of
             Inl e \<Rightarrow> (tr, Inl e)
           | Inr parsed_rules \<Rightarrow>
               (case map_result rule_args parsed_rules of
                  Inl e \<Rightarrow> (tr, Inl e)
                | Inr args \<Rightarrow>
                    if \<not> dicts_repr_ok (concat args) then (tr, Inl ValueError)
                    else
                      (case call_client cl tr
                              (BatchSetCdnDomainConfigRequest domain_name (asc ''cache_ttl'')
                                 (concat args)) of
                         (tr', Inl e) \<Rightarrow> (tr', Inl e)
                       | (tr', Inr _) \<Rightarrow> (tr', Inr (msg_domain @ domain_name @ msg_cache_set))))))"

section \<open>\<^verbatim>\<open>setup_cdn_with_text\<close>\<close>

subsection \<open>The two patterns given to \<^verbatim>\<open>re.findall\<close>\<close>

text \<open>\<^verbatim>\<open>re.findall(r'\d+', line)\<close>: the maximal runs of decimal digits, from the left.\<close>

function findall_digits :: "pystr \<Rightarrow> pystr list" where
  "findall_digits [] = []"
| "findall_digits (c # cs) =
     (if is_decimal c then takeWhile is_decimal (c # cs) # findall_digits (dropWhile is_decimal cs)
      else findall_digits cs)"
  by pat_completeness auto
termination
  by (relation "measure length") (auto simp: length_dropWhile_le less_Suc_eq_le)

text \<open>\<^verbatim>\<open>\d+\<close> at the start of a string: the longest run of digits and what follows it. Each
  \<^verbatim>\<open>\d+\<close> of \<^verbatim>\<open>\d+\.\d+\.\d+\.\d+\<close> takes its whole run: a shorter one would leave a digit
  where \<^verbatim>\<open>\.\<close> has to match, and the last one is followed by nothing.\<close>

definition digits1 :: "pystr \<Rightarrow> (pystr \<times> pystr) option" where
  "digits1 s =
     (if takeWhile is_decimal s = [] then None
      else Some (takeWhile is_decimal s, dropWhile is_decimal s))"

definition dot_digits1 :: "pystr \<times> pystr \<Rightarrow> (pystr \<times> pystr) option" where
  "dot_digits1 mr =
     (case snd mr of
        [] \<Rightarrow> None
      | c # r \<Rightarrow>
          if c = 46 then (case digits1 r of None \<Rightarrow> None | Some (d, r') \<Rightarrow> Some (fst mr @ 46 # d, r'))
          else None)"

text \<open>A match of the whole pattern at the start of a string: the matched text and the rest.\<close>

definition match_quad :: "pystr \<Rightarrow> (pystr \<times> pystr) option" where
  "match_quad s =
     Option.bind (Option.bind (Option.bind (digits1 s) dot_digits1) dot_digits1) dot_digits1"

function findall_quad :: "pystr \<Rightarrow> pystr list" where
  "findall_quad [] = []"
| "findall_quad (c # cs) =
     (case match_quad (c # cs) of
        Some (m, rest) \<Rightarrow> m # findall_quad rest
      | None \<Rightarrow> findall_quad cs)"
  by pat_completeness auto
termination
proof (relation "measure length")
  show "wf (measure length)" by simp
next
  fix c :: nat and cs x2 m rest
  assume "match_quad (c # cs) = Some x2" and "(m, rest) = x2"
  then have mq: "match_quad (c # cs) = Some (m, rest)" by simp
  have d: "length r \<le> length s" if "digits1 s = Some (a, r)" for s a r
    using that by (auto simp: digits1_def length_dropWhile_le split: if_splits)
  have dd: "length r' < length r" if "dot_digits1 (a, r) = Some (a', r')" for a r a' r'
    using that d by (fastforce simp: dot_digits1_def split: list.splits if_splits option.splits)
  from mq obtain a1 r1 a2 r2 a3 r3 where
    "digits1 (c # cs) = Some (a1, r1)" "dot_digits1 (a1, r1) = Some (a2, r2)"
    "dot_digits1 (a2, r2) = Some (a3, r3)" "dot_digits1 (a3, r3) = Some (m, rest)"
    by (auto simp: match_quad_def Option.bind_eq_Some_conv)
  then have "length rest < length (c # cs)"
    using d [of "c # cs" a1 r1] dd [of a1 r1 a2 r2] dd [of a2 r2 a3 r3] dd [of a3 r3 m rest]
    by linarith
  then show "(rest, c # cs) \<in> measure length" by simp
next
  fix c :: nat and cs
  show "(cs, c # cs) \<in> measure length" by simp
qed

text \<open>\<^verbatim>\<open>xs[0]\<close>.\<close>

definition item0 :: "'a list \<Rightarrow> py_error + 'a" where
  "item0 xs = (case xs of [] \<Rightarrow> Inl IndexError | x # _ \<Rightarrow> Inr x)"

text \<open>\<^verbatim>\<open>int(re.findall(r'\d+', line)[0])\<close>.\<close>

definition first_int :: "pystr \<Rightarrow> py_error + int" where
  "first_int line = (case item0 (findall_digits line) of Inl e \<Rightarrow> Inl e | Inr m \<Rightarrow> py_int m)"

subsection \<open>The draft and the scan of one line\<close>

record draft =
  domain_name :: "pystr option"
  cdn_type :: "pystr option"
  source_type :: "pystr option"
  source_ip :: "pystr option"
  source_port :: "int option"
  cache_rules :: "pystr list"

definition init_draft :: draft where
  "init_draft = \<lparr>domain_name = None, cdn_type = None, source_type = None, source_ip = None,
                  source_port = None, cache_rules = []\<rparr>"

text \<open>\<^verbatim>\<open>for ext in exts: cache_rules.append(f"{ext}:{ttl}")\<close>.\<close>

fun append_rules :: "pystr list \<Rightarrow> int \<Rightarrow> draft \<Rightarrow> py_error + draft" where
  "append_rules [] ttl st = Inr st"
| "append_rules (ext # exts) ttl st =
     (case py_str_int ttl of
        Inl e \<Rightarrow> Inl e
      | Inr t \<Rightarrow> append_rules exts ttl (st\<lparr>cache_rules := cache_rules st @ [ext @ asc '':'' @ t]\<rparr>))"

text \<open>The body of the loop over the lines is an \<^verbatim>\<open>if\<close>/\<^verbatim>\<open>elif\<close> chain. The bodies of
  its branches for the acceleration type, the origin type and the cache rule come first.\<close>

definition parse_cdn_type :: "pystr \<Rightarrow> draft \<Rightarrow> draft" where
  "parse_cdn_type line st =
     (if py_in kw_big_download line then st\<lparr>cdn_type := Some (asc ''download'')\<rparr>
      else if py_in kw_image_small_file line \<or> py_in kw_small_file line then
        st\<lparr>cdn_type := Some (asc ''web'')\<rparr>
      else if py_in kw_audio_video line \<and> py_in kw_live line then
        st\<lparr>cdn_type := Some (asc ''live'')\<rparr>
      else if py_in kw_audio_video line then st\<lparr>cdn_type := Some (asc ''video'')\<rparr>
      else st)"

definition parse_source_type :: "pystr \<Rightarrow> draft \<Rightarrow> draft" where
  "parse_source_type line st =
     (if py_in (asc ''ipaddr'') line then st\<lparr>source_type := Some (asc ''ipaddr'')\<rparr>
      else if py_in (asc ''domain'') line then st\<lparr>source_type := Some (asc ''domain'')\<rparr>
      else if py_in (asc ''oss'') line then st\<lparr>source_type := Some (asc ''oss'')\<rparr>
      else st)"

definition cache_pattern :: "pystr \<Rightarrow> pystr" where
  "cache_pattern line =
     (if py_in kw_image line then asc ''*.jpg,*.jpeg,*.png,*.gif''
      else if py_in kw_video line then asc ''*.mp4,*.flv,*.m3u8''
      else asc ''*'')"

definition cache_hours :: "pystr \<Rightarrow> py_error + int" where
  "cache_hours line =
     (if py_in kw_hour line then first_int line
      else if py_in kw_day line then
        (case first_int line of Inl e \<Rightarrow> Inl e | Inr n \<Rightarrow> Inr (n * 24))
      else Inr 1)"

definition parse_cache :: "pystr \<Rightarrow> draft \<Rightarrow> py_error + draft" where
  "parse_cache line st =
     (let pattern = cache_pattern line
      in case cache_hours line of
           Inl e \<Rightarrow> Inl e
         | Inr hours \<Rightarrow> append_rules (py_split 44 pattern) (hours * 3600) st)"

definition scan_line :: "pystr \<Rightarrow> draft \<Rightarrow> py_error + draft" where
  "scan_line line st =
     (if py_in (asc ''.xiangyuncdn.com'') line then
        Inr (st\<lparr>domain_name := Some (py_strip line)\<rparr>)
      else if py_in kw_accel_type line then Inr (parse_cdn_type line st)
      else if py_in kw_origin_type line then Inr (parse_source_type line st)
      else if py_in kw_ip_address line then
        (case item0 (findall_quad line) of
           Inl e \<Rightarrow> Inl e
         | Inr ip \<Rightarrow> Inr (st\<lparr>source_ip := Some ip\<rparr>))
      else if py_in kw_port line then
        (case first_int line of
           Inl e \<Rightarrow> Inl e
         | Inr n \<Rightarrow> Inr (st\<lparr>source_port := Some n\<rparr>))
      else if py_in kw_cache line then parse_cache line st
      else Inr st)"

fun scan_lines :: "pystr list \<Rightarrow> draft \<Rightarrow> py_error + draft" where
  "scan_lines [] st = Inr st"
| "scan_lines (line # lines) st =
     (case scan_line line st of Inl e \<Rightarrow> Inl e | Inr st' \<Rightarrow> scan_lines lines st')"

text \<open>\<^verbatim>\<open>[line.strip() for line in text.split('\n') if line.strip()]\<close>.\<close>

definition text_lines :: "pystr \<Rightarrow> pystr list" where
  "text_lines text = map py_strip (filter (\<lambda>line. py_strip line \<noteq> []) (py_split 10 text))"

text \<open>\<^verbatim>\<open>x or d\<close> for an optional string and for an optional integer: \<^verbatim>\<open>None\<close>, the empty string
  and 0 are false.\<close>

definition or_str :: "pystr option \<Rightarrow> pystr \<Rightarrow> pystr" where
  "or_str x d = (case x of None \<Rightarrow> d | Some s \<Rightarrow> if s = [] then d else s)"

definition or_int :: "int option \<Rightarrow> int \<Rightarrow> int" where
  "or_int x d = (case x of None \<Rightarrow> d | Some n \<Rightarrow> if n = 0 then d else n)"

definition opt_str :: "pystr option \<Rightarrow> pyval" where
  "opt_str x = (case x of None \<Rightarrow> PNone | Some s \<Rightarrow> PStr s)"

text \<open>The origin descriptor built after the scan.\<close>

definition build_source :: "draft \<Rightarrow> pydict" where
  "build_source st =
     [(asc ''type'', PStr (or_str (source_type st) (asc ''ipaddr''))),
      (asc ''content'', opt_str (source_ip st)),
      (asc ''port'', PInt (or_int (source_port st) 80))]"

text \<open>The function: the requests made to the client, in order, and the string returned
  or the exception raised.\<close>

definition setup_cdn_with_text :: "client \<Rightarrow> pystr \<Rightarrow> request list \<times> (py_error + pystr)" where
  "setup_cdn_with_text cl text =
     (case scan_lines (text_lines text) init_draft of
        Inl e \<Rightarrow> ([], Inl e)
      | Inr st \<Rightarrow>
          (case domain_name st of
             None \<Rightarrow> ([], Inr msg_no_domain)
           | Some dn \<Rightarrow>
               if dn = [] then ([], Inr msg_no_domain)
               else
                 (case add_cdn_domain cl [] dn (Single (Dict (build_source st)))
                         (or_str (cdn_type st) (asc ''web'')) of
                    (tr, Inl e) \<Rightarrow> (tr, Inl e)
                  | (tr, Inr result) \<Rightarrow>
                      (case (if cache_rules st \<noteq> []
                             then set_cdn_cache cl tr dn (Multiple (map Str (cache_rules st)))
                             else (tr, Inr [])) of
                         (tr', Inl e) \<Rightarrow> (tr', Inl e)
                       | (tr', Inr _) \<Rightarrow> (tr', Inr (msg_done @ result))))))"

section \<open>Notions of the specification\<close>

text \<open>The six categories of a line in the order in which the loop tests them, the marker
  of each, and the categories whose marker occurs in a line.\<close>

datatype category = Domain | AccelType | OriginType | IpAddress | Port | Cache

definition priority :: "category list" where
  "priority = [Domain, AccelType, OriginType, IpAddress, Port, Cache]"

fun marker :: "category \<Rightarrow> pystr" where
  "marker Domain = asc ''.xiangyuncdn.com''"
| "marker AccelType = kw_accel_type"
| "marker OriginType = kw_origin_type"
| "marker IpAddress = kw_ip_address"
| "marker Port = kw_port"
| "marker Cache = kw_cache"

definition matching :: "pystr \<Rightarrow> category list" where
  "matching line = filter (\<lambda>c. py_in (marker c) line) priority"

definition first_category :: "pystr \<Rightarrow> category option" where
  "first_category line = (case matching line of [] \<Rightarrow> None | c # _ \<Rightarrow> Some c)"

text \<open>What the specification says is done with a line of a category.\<close>

fun handle :: "category \<Rightarrow> pystr \<Rightarrow> draft \<Rightarrow> py_error + draft" where
  "handle Domain line st = Inr (st\<lparr>domain_name := Some (py_strip line)\<rparr>)"
| "handle AccelType line st = Inr (parse_cdn_type line st)"
| "handle OriginType line st = Inr (parse_source_type line st)"
| "handle IpAddress line st =
     (case findall_quad line of [] \<Rightarrow> Inl IndexError | ip # _ \<Rightarrow> Inr (st\<lparr>source_ip := Some ip\<rparr>))"
| "handle Port line st =
     (case first_int line of Inl e \<Rightarrow> Inl e | Inr n \<Rightarrow> Inr (st\<lparr>source_port := Some n\<rparr>))"
| "handle Cache line st = parse_cache line st"

text \<open>The draft \<open>st'\<close> with the field of one category put back to what it is in \<open>st\<close>.\<close>

fun restore :: "category \<Rightarrow> draft \<Rightarrow> draft \<Rightarrow> draft" where
  "restore Domain st st' = st'\<lparr>domain_name := domain_name st\<rparr>"
| "restore AccelType st st' = st'\<lparr>cdn_type := cdn_type st\<rparr>"
| "restore OriginType st st' = st'\<lparr>source_type := source_type st\<rparr>"
| "restore IpAddress st st' = st'\<lparr>source_ip := source_ip st\<rparr>"
| "restore Port st st' = st'\<lparr>source_port := source_port st\<rparr>"
| "restore Cache st st' = st'\<lparr>cache_rules := cache_rules st\<rparr>"

text \<open>The number that a run of decimal digits writes.\<close>

definition digits_value :: "pystr \<Rightarrow> nat" where
  "digits_value ds = foldl (\<lambda>v c. 10 * v + (case to_decimal c of Some d \<Rightarrow> d | None \<Rightarrow> 0)) 0 ds"

text \<open>A dotted quad in the words of the specification: four groups of one to three
  decimal digits, separated by dots.\<close>

definition is_digit_group :: "pystr \<Rightarrow> bool" where
  "is_digit_group g \<longleftrightarrow> 1 \<le> length g \<and> length g \<le> 3 \<and> list_all is_decimal g"

definition is_dotted_quad :: "pystr \<Rightarrow> bool" where
  "is_dotted_quad s =
     (let groups = py_split 46 s
      in length groups = 4 \<and> list_all is_digit_group groups)"

section \<open>Properties\<close>

text \<open>The definitions that a concrete evaluation unfolds.\<close>

lemmas model_defs = asc_def is_space_def c_isspace_def decimal_zeros_def to_decimal_def
  is_decimal_def py_strip_def int_max_str_digits_def int_ascii_def py_int_def py_str_int_def
  parse_cache_rule_def parse_header_def digit_group_def dot_then_group_def ip_regex_match_def
  parse_source_info_def getitem_def call_client_def as_list_def repr_ok_def dicts_repr_ok_def
  kw_accel_type_def kw_big_download_def kw_image_small_file_def kw_small_file_def
  kw_audio_video_def kw_live_def kw_origin_type_def kw_ip_address_def kw_port_def kw_cache_def
  kw_image_def kw_video_def kw_hour_def kw_day_def msg_no_domain_def msg_done_def msg_domain_def
  msg_added_def msg_cache_set_def add_cdn_domain_def rule_args_def set_cdn_cache_def digits1_def
  dot_digits1_def match_quad_def item0_def first_int_def init_draft_def parse_cdn_type_def
  parse_source_type_def cache_pattern_def cache_hours_def parse_cache_def scan_line_def
  text_lines_def or_str_def or_int_def opt_str_def build_source_def setup_cdn_with_text_def
  matching_def priority_def first_category_def digits_value_def is_digit_group_def is_dotted_quad_def Let_def
  nat_digits.simps

subsection \<open>Splitting\<close>

lemma py_split_nonempty: "py_split sep s \<noteq> []"
  by (induction s) (auto split: list.splits)

lemma py_split_no_sep: "sep \<notin> set s \<Longrightarrow> py_split sep s = [s]"
  by (induction s) auto

lemma py_split_append: "sep \<notin> set a \<Longrightarrow> py_split sep (a @ sep # b) = a # py_split sep b"
  by (induction a) auto

lemma length_py_split: "length (py_split sep s) = Suc (count_list s sep)"
  by (induction s) (auto split: list.splits)

lemma py_split_subset: "p \<in> set (py_split sep s) \<Longrightarrow> set p \<subseteq> set s"
proof (induction s arbitrary: p)
  case Nil
  then show ?case by simp
next
  case (Cons c cs)
  show ?case
  proof (cases "c = sep")
    case True
    with Cons show ?thesis by auto
  next
    case False
    obtain q qs where q: "py_split sep cs = q # qs"
      using py_split_nonempty [of sep cs] by (cases "py_split sep cs") auto
    with False Cons.prems have "p = c # q \<or> p \<in> set qs" by simp
    moreover have "set q \<subseteq> set cs" using Cons.IH [of q] q by simp
    moreover have "p \<in> set qs \<Longrightarrow> set p \<subseteq> set cs" using Cons.IH [of p] q by simp
    ultimately show ?thesis by auto
  qed
qed

subsection \<open>Integer parsing\<close>

lemma py_int_ValueError: "py_int s = Inl e \<Longrightarrow> e = ValueError"
  by (auto simp: py_int_def Let_def split: if_splits option.splits)

lemma to_decimal_le9: "to_decimal c = Some d \<Longrightarrow> d \<le> 9"
proof (cases "c < 128")
  case True
  assume "to_decimal c = Some d"
  with True show ?thesis by (auto simp: to_decimal_def split: if_splits)
next
  case False
  assume a: "to_decimal c = Some d"
  with False obtain z zs where f: "filter (\<lambda>z. z \<le> c \<and> c < z + 10) decimal_zeros = z # zs" and d: "d = c - z"
    by (auto simp: to_decimal_def split: list.splits)
  from f have "z \<in> set (filter (\<lambda>z. z \<le> c \<and> c < z + 10) decimal_zeros)" by simp
  then have "z \<le> c \<and> c < z + 10" by simp
  with d show ?thesis by linarith
qed

lemma int_ascii_minus: "int_ascii c = 45 \<Longrightarrow> c = 45"
  by (auto simp: int_ascii_def split: if_splits option.splits dest: to_decimal_le9)

lemma py_int_nonneg:
  assumes "py_int s = Inr n" and "45 \<notin> set s"
  shows "0 \<le> n"
proof -
  have "45 \<notin> set (map int_ascii s)" using assms(2) by (auto dest: int_ascii_minus)
  then have "45 \<notin> set (dropWhile c_isspace (map int_ascii s))"
    using set_dropWhileD by fast
  then have "(case dropWhile c_isspace (map int_ascii s) of [] \<Rightarrow> False | c # _ \<Rightarrow> c = 45) = False"
    by (auto split: list.splits)
  with assms(1) show ?thesis
    by (auto simp: py_int_def Let_def split: if_splits option.splits)
qed

lemma parse_cache_rule_str:
  "parse_cache_rule (Str s) = Inr r \<Longrightarrow>
     \<exists>pattern ttl n. py_split 58 s = [pattern, ttl] \<and> py_int ttl = Inr n \<and>
       r = [(asc ''path_pattern'', PStr (if startswith pattern (asc ''/'') then pattern else asc ''/'' @ pattern)),
            (asc ''ttl'', PInt n)]"
  by (auto simp: parse_cache_rule_def split: list.splits sum.splits)

lemma py_int_no_digit:
  assumes "\<forall>c \<in> set s. \<not> is_decimal c"
  shows "py_int s = Inl ValueError"
proof -
  have nd: "\<not> (48 \<le> int_ascii c \<and> int_ascii c \<le> 57)" if "c \<in> set s" for c
    using assms that by (auto simp: int_ascii_def is_decimal_def to_decimal_def split: if_splits option.splits)
  have scan: "(\<forall>c \<in> set t. \<not> (48 \<le> c \<and> c \<le> 57)) \<Longrightarrow>
      scan_num t v n und = None \<or> (\<exists>r. scan_num t v n und = Some (v, n, r))" for t v n und
    by (induction t v n und rule: scan_num.induct) auto
  define t1 where "t1 = dropWhile c_isspace (map int_ascii s)"
  define t2 where "t2 = (case t1 of [] \<Rightarrow> [] | c # r \<Rightarrow> if c = 43 \<or> c = 45 then r else t1)"
  have "set t1 \<subseteq> set (map int_ascii s)" unfolding t1_def using set_dropWhileD by fast
  moreover have "set t2 \<subseteq> set t1" unfolding t2_def by (auto split: list.splits)
  ultimately have "\<forall>c \<in> set t2. \<not> (48 \<le> c \<and> c \<le> 57)" using nd by fastforce
  from scan [OF this, of 0 0 False] show ?thesis
    unfolding py_int_def Let_def t1_def [symmetric] t2_def [symmetric]
    by (auto split: option.splits)
qed

subsection \<open>The cache rule normalizer\<close>

text \<open>
  Claim C1, as amended. A shorthand cache rule with exactly one colon,
  \<open>pattern:ttl\<close>, is normalised to the pattern with a leading slash (added when the
  pattern does not start with one) and to \<open>int(ttl)\<close>; when \<open>int(ttl)\<close> raises, and in
  particular when the ttl part holds no decimal digit, the normalizer raises
  \<^verbatim>\<open>ValueError\<close>. A string whose number of colons is not one raises \<^verbatim>\<open>ValueError\<close> too:
  no split at the last colon takes place.
\<close>

theorem parse_cache_rule_one_colon:
  "(58 \<notin> set pattern \<and> 58 \<notin> set ttl \<longrightarrow>
      parse_cache_rule (Str (pattern @ asc '':'' @ ttl)) =
        (case py_int ttl of
           Inl e \<Rightarrow> Inl ValueError
         | Inr n \<Rightarrow> Inr [(asc ''path_pattern'', PStr (if startswith pattern (asc ''/'') then pattern else asc ''/'' @ pattern)),
                        (asc ''ttl'', PInt n)])) \<and>
   (58 \<notin> set p \<and> 58 \<notin> set t \<and> (\<forall>c \<in> set t. \<not> is_decimal c) \<longrightarrow>
      parse_cache_rule (Str (p @ asc '':'' @ t)) = Inl ValueError) \<and>
   (count_list s 58 \<noteq> 1 \<longrightarrow> parse_cache_rule (Str s) = Inl ValueError)"
proof (intro conjI impI)
  assume a: "58 \<notin> set pattern \<and> 58 \<notin> set ttl"
  then have sp: "py_split 58 (pattern @ asc '':'' @ ttl) = [pattern, ttl]"
    by (simp add: asc_def py_split_append py_split_no_sep)
  show "parse_cache_rule (Str (pattern @ asc '':'' @ ttl)) =
        (case py_int ttl of
           Inl e \<Rightarrow> Inl ValueError
         | Inr n \<Rightarrow> Inr [(asc ''path_pattern'', PStr (if startswith pattern (asc ''/'') then pattern else asc ''/'' @ pattern)),
                        (asc ''ttl'', PInt n)])"
    unfolding parse_cache_rule_def using sp
    by (auto split: sum.splits dest: py_int_ValueError)
next
  assume a: "58 \<notin> set p \<and> 58 \<notin> set t \<and> (\<forall>c \<in> set t. \<not> is_decimal c)"
  then have sp: "py_split 58 (p @ asc '':'' @ t) = [p, t]"
    by (simp add: asc_def py_split_append py_split_no_sep)
  from a have "py_int t = Inl ValueError" by (simp add: py_int_no_digit)
  then show "parse_cache_rule (Str (p @ asc '':'' @ t)) = Inl ValueError"
    unfolding parse_cache_rule_def using sp by simp
next
  assume "count_list s 58 \<noteq> 1"
  then have "length (py_split 58 s) \<noteq> 2" by (simp add: length_py_split)
  then show "parse_cache_rule (Str s) = Inl ValueError"
    unfolding parse_cache_rule_def by (auto split: list.splits)
qed

theorem parse_cache_rule_one_colon_witness:
  "parse_cache_rule (Str (asc ''*.jpg:3600'')) =
     Inr [(asc ''path_pattern'', PStr (asc ''/*.jpg'')), (asc ''ttl'', PInt 3600)] \<and>
   parse_cache_rule (Str (asc ''/img/*:one day'')) = Inl ValueError \<and>
   parse_cache_rule (Str (asc ''*.jpg'')) = Inl ValueError"
  using parse_cache_rule_one_colon [of "asc ''*.jpg''" "asc ''3600''" "asc ''/img/*''" "asc ''one day''"
      "asc ''*.jpg''"]
  by (simp add: model_defs)

text \<open>The claim as it is written fails for a pattern that holds a colon: the string
  \<^verbatim>\<open>a:b:10\<close> is not split into \<^verbatim>\<open>a:b\<close> and \<^verbatim>\<open>10\<close> but refused.\<close>

theorem parse_cache_rule_last_colon_counterexample:
  "parse_cache_rule (Str (asc ''a:b'' @ asc '':'' @ asc ''10'')) = Inl ValueError \<and>
   py_int (asc ''10'') = Inr 10"
  by (simp add: model_defs)

text \<open>
  Claim C6, as amended. Every rule produced from a shorthand string comes from a string
  of two parts, \<open>pattern:ttl\<close>, and its \<^verbatim>\<open>ttl\<close> is an integer, the \<open>int()\<close> of the ttl
  part. It is not negative when the ttl part holds no minus sign; a minus sign in the
  pattern does not matter. (Nothing in the normalizer refuses a negative number.)
\<close>

theorem parse_cache_rule_ttl_nonneg:
  assumes "parse_cache_rule (Str s) = Inr r"
  shows "\<exists>pattern ttl n. py_split 58 s = [pattern, ttl] \<and> py_int ttl = Inr n \<and>
           getitem r (asc ''ttl'') = Inr (PInt n) \<and> (45 \<notin> set ttl \<longrightarrow> 0 \<le> n)"
proof -
  from parse_cache_rule_str [OF assms] obtain pattern ttl n where
    sp: "py_split 58 s = [pattern, ttl]" and n: "py_int ttl = Inr n" and
    r: "r = [(asc ''path_pattern'', PStr (if startswith pattern (asc ''/'') then pattern else asc ''/'' @ pattern)),
            (asc ''ttl'', PInt n)]" by blast
  have "45 \<notin> set ttl \<longrightarrow> 0 \<le> n" using n by (auto dest: py_int_nonneg)
  moreover have "getitem r (asc ''ttl'') = Inr (PInt n)" by (simp add: r getitem_def asc_def)
  ultimately show ?thesis using sp n by blast
qed

theorem parse_cache_rule_ttl_nonneg_witness:
  "parse_cache_rule (Str (asc ''/a-b/*.jpg:60'')) =
     Inr [(asc ''path_pattern'', PStr (asc ''/a-b/*.jpg'')), (asc ''ttl'', PInt 60)] \<and>
   py_split 58 (asc ''/a-b/*.jpg:60'') = [asc ''/a-b/*.jpg'', asc ''60''] \<and>
   45 \<in> set (asc ''/a-b/*.jpg'') \<and> 45 \<notin> set (asc ''60'') \<and>
   py_int (asc ''60'') = Inr 60 \<and>
   getitem [(asc ''path_pattern'', PStr (asc ''/a-b/*.jpg'')), (asc ''ttl'', PInt 60)]
     (asc ''ttl'') = Inr (PInt 60) \<and>
   (0::int) \<le> 60"
proof -
  have r: "parse_cache_rule (Str (asc ''/a-b/*.jpg:60'')) =
     Inr [(asc ''path_pattern'', PStr (asc ''/a-b/*.jpg'')), (asc ''ttl'', PInt 60)]"
    by (simp add: model_defs)
  have sp: "py_split 58 (asc ''/a-b/*.jpg:60'') = [asc ''/a-b/*.jpg'', asc ''60'']"
    by (simp add: asc_def)
  have m: "45 \<in> set (asc ''/a-b/*.jpg'')" "45 \<notin> set (asc ''60'')" by (simp_all add: asc_def)
  from parse_cache_rule_ttl_nonneg [OF r] obtain pattern ttl n where
    e: "py_split 58 (asc ''/a-b/*.jpg:60'') = [pattern, ttl]" "py_int ttl = Inr n"
       "getitem [(asc ''path_pattern'', PStr (asc ''/a-b/*.jpg'')), (asc ''ttl'', PInt 60)]
          (asc ''ttl'') = Inr (PInt n)"
       "45 \<notin> set ttl \<longrightarrow> 0 \<le> n"
    by blast
  from e(1) sp have t: "ttl = asc ''60''" by simp
  have g: "getitem [(asc ''path_pattern'', PStr (asc ''/a-b/*.jpg'')), (asc ''ttl'', PInt 60)]
          (asc ''ttl'') = Inr (PInt 60)"
    by (simp add: getitem_def asc_def)
  with e(3) have n: "n = 60" by simp
  from e(2) t n have i: "py_int (asc ''60'') = Inr 60" by simp
  from e(4) t n m(2) have "(0::int) \<le> 60" by simp
  with r sp m i g show ?thesis by blast
qed

text \<open>The claim as it is written fails: a minus sign is accepted.\<close>

theorem parse_cache_rule_negative_ttl_counterexample:
  "parse_cache_rule (Str (asc ''*.jpg:-5'')) =
     Inr [(asc ''path_pattern'', PStr (asc ''/*.jpg'')), (asc ''ttl'', PInt (- 5))]"
  by (simp add: model_defs)

subsection \<open>The header normalizer\<close>

text \<open>
  Claim C2, as amended. A shorthand header with exactly one colon, \<open>k:v\<close>, is
  normalised to the key \<open>k\<close> and the value \<open>v\<close>, each stripped of surrounding white
  space. A string whose number of colons is not one (none, or a value with a colon in
  it) raises \<^verbatim>\<open>ValueError\<close>: there is no split at the first colon only.
\<close>

theorem parse_header_one_colon:
  "(58 \<notin> set k \<and> 58 \<notin> set v \<longrightarrow>
      parse_header (Str (k @ asc '':'' @ v)) =
        Inr [(asc ''key'', PStr (py_strip k)), (asc ''value'', PStr (py_strip v))]) \<and>
   (count_list s 58 \<noteq> 1 \<longrightarrow> parse_header (Str s) = Inl ValueError)"
proof (intro conjI impI)
  assume a: "58 \<notin> set k \<and> 58 \<notin> set v"
  then have sp: "py_split 58 (k @ asc '':'' @ v) = [k, v]"
    by (simp add: asc_def py_split_append py_split_no_sep)
  show "parse_header (Str (k @ asc '':'' @ v)) =
        Inr [(asc ''key'', PStr (py_strip k)), (asc ''value'', PStr (py_strip v))]"
    unfolding parse_header_def using sp by simp
next
  assume "count_list s 58 \<noteq> 1"
  then have "length (py_split 58 s) \<noteq> 2" by (simp add: length_py_split)
  then show "parse_header (Str s) = Inl ValueError"
    unfolding parse_header_def by (auto split: list.splits)
qed

theorem parse_header_one_colon_witness:
  "parse_header (Str (asc ''Content-Type: text/html'')) =
     Inr [(asc ''key'', PStr (asc ''Content-Type'')), (asc ''value'', PStr (asc ''text/html''))] \<and>
   parse_header (Str (asc ''Content-Type'')) = Inl ValueError"
  using parse_header_one_colon [of "asc ''Content-Type''" "asc '' text/html''" "asc ''Content-Type''"]
  by (simp add: model_defs)

text \<open>The claim as it is written fails for a value that holds a colon.\<close>

theorem parse_header_first_colon_counterexample:
  "parse_header (Str (asc ''Location'' @ asc '':'' @ asc '' http://cdn.example'')) = Inl ValueError"
  by (simp add: model_defs)

subsection \<open>Runs of decimal digits\<close>

lemma space_not_decimal:
  assumes "is_space c" and "127 \<le> c"
  shows "to_decimal c = None"
proof -
  from assms have cases: "c = 0x85 \<or> c = 0xA0 \<or> c = 0x1680 \<or> (0x2000 \<le> c \<and> c \<le> 0x200A) \<or>
      c = 0x2028 \<or> c = 0x2029 \<or> c = 0x202F \<or> c = 0x205F \<or> c = 0x3000"
    unfolding is_space_def by auto
  have "\<not> (z \<le> c \<and> c < z + 10)" if "z \<in> set decimal_zeros" for z
  proof -
    from that have z: "z < 0x85 - 10 \<or> (0xA0 < z \<and> z < 0x1680 - 10) \<or> (0x1680 < z \<and> z < 0x2000 - 10) \<or> 0x3000 < z"
      unfolding decimal_zeros_def by auto
    from cases have c: "c = 0x85 \<or> c = 0xA0 \<or> c = 0x1680 \<or> (0x2000 \<le> c \<and> c \<le> 0x3000)" by auto
    from z c show ?thesis by auto
  qed
  then have "filter (\<lambda>z. z \<le> c \<and> c < z + 10) decimal_zeros = []"
    by (simp add: filter_empty_conv)
  with assms(2) cases show ?thesis by (auto simp: to_decimal_def)
qed

lemma int_ascii_decimal: "to_decimal c = Some d \<Longrightarrow> int_ascii c = 48 + d"
proof -
  assume a: "to_decimal c = Some d"
  show ?thesis
  proof (cases "c < 127")
    case True
    with a show ?thesis by (auto simp: int_ascii_def to_decimal_def split: if_splits)
  next
    case False
    with a have "\<not> is_space c" using space_not_decimal [of c] by auto
    with False a show ?thesis by (simp add: int_ascii_def)
  qed
qed

lemma scan_num_digits:
  "(\<forall>c \<in> set t. 48 \<le> c \<and> c \<le> 57) \<Longrightarrow> t \<noteq> [] \<or> \<not> und \<Longrightarrow>
     scan_num t v n und = Some (foldl (\<lambda>v c. 10 * v + (c - 48)) v t, n + length t, [])"
  by (induction t arbitrary: v n und) auto

lemma foldl_int_ascii:
  "list_all is_decimal r \<Longrightarrow>
     foldl (\<lambda>v c. 10 * v + (c - 48)) v (map int_ascii r) =
     foldl (\<lambda>v c. 10 * v + (case to_decimal c of Some d \<Rightarrow> d | None \<Rightarrow> 0)) v r"
proof (induction r arbitrary: v)
  case Nil
  then show ?case by simp
next
  case (Cons c r)
  then obtain d where d: "to_decimal c = Some d" by (auto simp: is_decimal_def)
  then have "int_ascii c - 48 = d" by (simp add: int_ascii_decimal)
  with d Cons show ?case by simp
qed

lemma int_ascii_digit_range: "is_decimal c \<Longrightarrow> 48 \<le> int_ascii c \<and> int_ascii c \<le> 57"
proof -
  assume "is_decimal c"
  then obtain d where d: "to_decimal c = Some d" by (auto simp: is_decimal_def)
  from int_ascii_decimal [OF d] to_decimal_le9 [OF d] show ?thesis by simp
qed

lemma py_int_digits:
  assumes "r \<noteq> []" and "list_all is_decimal r" and "length r \<le> int_max_str_digits"
  shows "py_int r = Inr (int (digits_value r))"
proof -
  define t where "t = map int_ascii r"
  have dig: "\<forall>c \<in> set t. 48 \<le> c \<and> c \<le> 57"
    using assms(2) int_ascii_digit_range by (auto simp: list_all_iff t_def)
  from assms(1) obtain c cs where t: "t = c # cs" by (cases r) (auto simp: t_def)
  with dig have c: "48 \<le> c \<and> c \<le> 57" by simp
  then have dw: "dropWhile c_isspace t = t" by (simp add: t c_isspace_def)
  from c have neg: "(case t of [] \<Rightarrow> False | c # _ \<Rightarrow> c = 45) = False" by (simp add: t)
  from c have t2: "(case t of [] \<Rightarrow> [] | c # r \<Rightarrow> if c = 43 \<or> c = 45 then r else t) = t"
    by (simp add: t)
  from c have us: "\<not> startswith t [95]" by (auto simp: t)
  have sc: "scan_num t 0 0 False = Some (digits_value r, length r, [])"
    using scan_num_digits [OF dig, of False 0 0] foldl_int_ascii [OF assms(2), of 0]
    by (simp add: digits_value_def t_def)
  from assms(1) have len: "length r \<noteq> 0" by simp
  show ?thesis
    unfolding py_int_def Let_def t_def [symmetric] dw neg t2
    using us sc assms(3) len by simp
qed

lemma foldl_digits_bound:
  "foldl (\<lambda>v c. 10 * v + (case to_decimal c of Some d \<Rightarrow> d | None \<Rightarrow> 0)) v r + 1 \<le> (v + 1) * 10 ^ length r"
proof (induction r arbitrary: v)
  case Nil
  then show ?case by simp
next
  case (Cons c r)
  have d: "(case to_decimal c of Some d \<Rightarrow> d | None \<Rightarrow> 0) \<le> 9"
    by (auto split: option.splits dest: to_decimal_le9)
  have "(10 * v + (case to_decimal c of Some d \<Rightarrow> d | None \<Rightarrow> 0) + 1) * 10 ^ length r \<le> (10 * v + 10) * 10 ^ length r"
    using d by (intro mult_right_mono) auto
  also have "\<dots> = (v + 1) * 10 ^ length (c # r)" by (simp add: algebra_simps)
  finally show ?case using Cons.IH [of "10 * v + (case to_decimal c of Some d \<Rightarrow> d | None \<Rightarrow> 0)"]
    by simp
qed

lemma digits_value_bound: "digits_value r < 10 ^ length r"
  using foldl_digits_bound [of 0 r] by (simp add: digits_value_def)

lemma length_nat_digits: "n < 10 ^ k \<Longrightarrow> 0 < k \<Longrightarrow> length (nat_digits n) \<le> k"
proof (induction n arbitrary: k rule: nat_digits.induct)
  case (1 n)
  show ?case
  proof (cases "n < 10")
    case True
    with "1.prems" show ?thesis by (simp add: nat_digits.simps [of n])
  next
    case False
    from "1.prems" obtain j where k: "k = Suc j" by (cases k) auto
    with False "1.prems" have j: "0 < j" by (cases j) auto
    from "1.prems" k have "n div 10 < 10 ^ j" by (simp add: less_mult_imp_div_less mult.commute)
    from "1.IH" [OF False this j] False k show ?thesis by (simp add: nat_digits.simps [of n])
  qed
qed

lemma py_str_int_nat:
  assumes "n < 10 ^ int_max_str_digits"
  shows "py_str_int (int n) = Inr (nat_digits n)"
proof -
  have "0 < int_max_str_digits" by (simp add: int_max_str_digits_def)
  with assms have "length (nat_digits n) \<le> int_max_str_digits" by (rule length_nat_digits)
  then show ?thesis by (simp add: py_str_int_def Let_def)
qed

lemma findall_digits_first:
  "findall_digits line = r # rs \<Longrightarrow> r \<noteq> [] \<and> list_all is_decimal r"
proof (induction line rule: findall_digits.induct)
  case 1
  then show ?case by simp
next
  case (2 c cs)
  show ?case
  proof (cases "is_decimal c")
    case True
    with "2.prems" have "r = c # takeWhile is_decimal cs" by simp
    moreover have "list_all is_decimal (takeWhile is_decimal cs)"
      by (simp add: list_all_iff) (metis set_takeWhileD)
    ultimately show ?thesis using True by simp
  next
    case False
    with "2.prems" "2.IH"(2) show ?thesis by simp
  qed
qed

lemma first_int_run:
  assumes "findall_digits line = r # rs" and "length r \<le> int_max_str_digits"
  shows "first_int line = Inr (int (digits_value r))"
  using findall_digits_first [OF assms(1)] assms
  by (simp add: first_int_def item0_def py_int_digits)

lemma scaled_bound:
  assumes "length r + 5 \<le> int_max_str_digits" and "m \<le> 86400"
  shows "digits_value r * m < 10 ^ int_max_str_digits"
proof -
  have "digits_value r * m \<le> digits_value r * 86400" using assms(2) by simp
  also have "\<dots> < 10 ^ length r * 86400"
    using digits_value_bound [of r] by simp
  also have "\<dots> \<le> 10 ^ length r * 10 ^ 5" by simp
  also have "\<dots> = 10 ^ (length r + 5)" by (simp add: power_add)
  also have "\<dots> \<le> 10 ^ int_max_str_digits" using assms(1) by (intro power_increasing) auto
  finally show ?thesis .
qed

subsection \<open>The scan of one line\<close>

lemma append_rules_eq:
  "append_rules exts ttl st =
     (if exts = [] then Inr st
      else (case py_str_int ttl of
              Inl e \<Rightarrow> Inl e
            | Inr t \<Rightarrow> Inr (st\<lparr>cache_rules := cache_rules st @ map (\<lambda>ext. ext @ asc '':'' @ t) exts\<rparr>)))"
  by (induction exts arbitrary: st) (auto split: sum.splits)

lemma scan_line_dispatch:
  "scan_line line st = (case matching line of [] \<Rightarrow> Inr st | c # cs \<Rightarrow> handle c line st)"
  by (simp add: scan_line_def matching_def priority_def item0_def split: list.splits)

lemma first_category_scan:
  "first_category l = Some c \<Longrightarrow> scan_line l st = handle c l st"
  by (simp add: scan_line_dispatch first_category_def split: list.splits)

lemma parse_cache_hours:
  assumes "cache_hours line = Inr (int h)" and "h * 3600 < 10 ^ int_max_str_digits"
  shows "parse_cache line st =
     Inr (st\<lparr>cache_rules := cache_rules st @
            map (\<lambda>ext. ext @ asc '':'' @ nat_digits (h * 3600)) (py_split 44 (cache_pattern line))\<rparr>)"
proof -
  have "int h * 3600 = int (h * 3600)" by simp
  then have "py_str_int (int h * 3600) = Inr (nat_digits (h * 3600))"
    using py_str_int_nat [OF assms(2)] by simp
  then show ?thesis
    by (simp add: parse_cache_def assms(1) append_rules_eq py_split_nonempty)
qed

lemma handle_frame: "handle c line st = Inr st' \<Longrightarrow> restore c st st' = st"
proof (cases c)
  case Cache
  assume "handle c line st = Inr st'"
  with Cache show ?thesis
    by (auto simp: parse_cache_def append_rules_eq Let_def split: sum.splits if_splits)
qed (auto simp: parse_cdn_type_def parse_source_type_def split: list.splits sum.splits if_splits)

lemma scan_lines_append:
  "scan_lines (pre @ ls) st = (case scan_lines pre st of Inl e \<Rightarrow> Inl e | Inr st' \<Rightarrow> scan_lines ls st')"
  by (induction pre arbitrary: st) (auto split: sum.splits)

text \<open>
  Claim C8. A line is handled by the first category, in the order domain suffix,
  acceleration type, origin type, IP address, port, cache, whose marker occurs in it, and
  by that category only: the scan of a line is what the first matching category does with
  it (nothing when no marker occurs), and what a category does with a line changes no
  field of the draft but its own. So a line with both the port and the cache marker sets
  the port and adds no cache rule.
\<close>

theorem scan_line_first_match:
  "scan_line line st = (case matching line of [] \<Rightarrow> Inr st | c # cs \<Rightarrow> handle c line st) \<and>
   (\<forall>c st'. handle c line st = Inr st' \<longrightarrow> restore c st st' = st)"
  using scan_line_dispatch handle_frame by blast

theorem scan_line_first_match_witness:
  "matching (kw_port @ asc '' 8080, '' @ kw_cache @ asc '' 2'' @ kw_day) = [Port, Cache] \<and>
   scan_line (kw_port @ asc '' 8080, '' @ kw_cache @ asc '' 2'' @ kw_day) init_draft =
     Inr (init_draft\<lparr>source_port := Some 8080\<rparr>) \<and>
   restore Port init_draft (init_draft\<lparr>source_port := Some 8080\<rparr>) = init_draft"
proof -
  define l where "l = kw_port @ asc '' 8080, '' @ kw_cache @ asc '' 2'' @ kw_day"
  have m: "matching l = [Port, Cache]" by (simp add: l_def model_defs)
  have h: "handle Port l init_draft = Inr (init_draft\<lparr>source_port := Some 8080\<rparr>)"
    by (simp add: l_def model_defs)
  from scan_line_first_match [of l init_draft] m h
  have "matching l = [Port, Cache] \<and>
    scan_line l init_draft = Inr (init_draft\<lparr>source_port := Some 8080\<rparr>) \<and>
    restore Port init_draft (init_draft\<lparr>source_port := Some 8080\<rparr>) = init_draft"
    by simp
  then show ?thesis unfolding l_def by blast
qed

text \<open>
  Claim C4, as amended. For a line that is handled as a cache line: when it holds the
  hour marker, the hours are the first run of digits of the line; when it holds the day
  marker and not the hour marker, the hours are the first run of digits times 24; when it
  holds neither marker the hours are 1, whether or not the line holds digits. The rules
  added carry \<open>hours * 3600\<close> as their ttl. (The run of digits is taken short enough for
  the interpreter's limit on the digits of an integer.) In particular a line with the day
  marker and the digit 2 gives \<open>2 * 24 * 3600 = 172800\<close>.
\<close>

theorem cache_line_ttl:
  "(first_category l1 = Some Cache \<and> py_in kw_hour l1 \<and> findall_digits l1 = r1 # rs1 \<and>
    length r1 + 5 \<le> int_max_str_digits \<longrightarrow>
      scan_line l1 st1 =
        Inr (st1\<lparr>cache_rules := cache_rules st1 @
               map (\<lambda>ext. ext @ asc '':'' @ nat_digits (digits_value r1 * 3600))
                 (py_split 44 (cache_pattern l1))\<rparr>)) \<and>
   (first_category l2 = Some Cache \<and> \<not> py_in kw_hour l2 \<and> py_in kw_day l2 \<and>
    findall_digits l2 = r2 # rs2 \<and> length r2 + 5 \<le> int_max_str_digits \<longrightarrow>
      scan_line l2 st2 =
        Inr (st2\<lparr>cache_rules := cache_rules st2 @
               map (\<lambda>ext. ext @ asc '':'' @ nat_digits (digits_value r2 * 24 * 3600))
                 (py_split 44 (cache_pattern l2))\<rparr>)) \<and>
   (first_category l3 = Some Cache \<and> \<not> py_in kw_hour l3 \<and> \<not> py_in kw_day l3 \<longrightarrow>
      scan_line l3 st3 =
        Inr (st3\<lparr>cache_rules := cache_rules st3 @
               map (\<lambda>ext. ext @ asc '':'' @ nat_digits (1 * 3600))
                 (py_split 44 (cache_pattern l3))\<rparr>))"
proof (intro conjI impI)
  assume a: "first_category l1 = Some Cache \<and> py_in kw_hour l1 \<and> findall_digits l1 = r1 # rs1 \<and>
    length r1 + 5 \<le> int_max_str_digits"
  then have "first_int l1 = Inr (int (digits_value r1))" by (intro first_int_run [of l1 r1 rs1]) auto
  with a have h: "cache_hours l1 = Inr (int (digits_value r1))" by (simp add: cache_hours_def)
  from a have b: "digits_value r1 * 3600 < 10 ^ int_max_str_digits" by (intro scaled_bound) auto
  from a show "scan_line l1 st1 =
        Inr (st1\<lparr>cache_rules := cache_rules st1 @
               map (\<lambda>ext. ext @ asc '':'' @ nat_digits (digits_value r1 * 3600))
                 (py_split 44 (cache_pattern l1))\<rparr>)"
    by (simp add: first_category_scan parse_cache_hours [OF h b])
next
  assume a: "first_category l2 = Some Cache \<and> \<not> py_in kw_hour l2 \<and> py_in kw_day l2 \<and>
    findall_digits l2 = r2 # rs2 \<and> length r2 + 5 \<le> int_max_str_digits"
  then have "first_int l2 = Inr (int (digits_value r2))" by (intro first_int_run [of l2 r2 rs2]) auto
  with a have h: "cache_hours l2 = Inr (int (digits_value r2 * 24))" by (simp add: cache_hours_def)
  from a have "digits_value r2 * 86400 < 10 ^ int_max_str_digits" by (intro scaled_bound) auto
  then have b: "digits_value r2 * 24 * 3600 < 10 ^ int_max_str_digits" by (simp add: mult.assoc)
  from a show "scan_line l2 st2 =
        Inr (st2\<lparr>cache_rules := cache_rules st2 @
               map (\<lambda>ext. ext @ asc '':'' @ nat_digits (digits_value r2 * 24 * 3600))
                 (py_split 44 (cache_pattern l2))\<rparr>)"
    by (simp add: first_category_scan parse_cache_hours [OF h b])
next
  assume a: "first_category l3 = Some Cache \<and> \<not> py_in kw_hour l3 \<and> \<not> py_in kw_day l3"
  then have h: "cache_hours l3 = Inr (int 1)" by (simp add: cache_hours_def)
  have "(3600::nat) < 10 ^ 4" by simp
  also have "(10::nat) ^ 4 \<le> 10 ^ int_max_str_digits"
    by (intro power_increasing) (auto simp: int_max_str_digits_def)
  finally have b: "1 * 3600 < (10::nat) ^ int_max_str_digits" by simp
  from a show "scan_line l3 st3 =
        Inr (st3\<lparr>cache_rules := cache_rules st3 @
               map (\<lambda>ext. ext @ asc '':'' @ nat_digits (1 * 3600))
                 (py_split 44 (cache_pattern l3))\<rparr>)"
    using parse_cache_hours [OF h b] by (simp add: first_category_scan)
qed

theorem cache_line_ttl_witness:
  "scan_line ([0x8BBE, 0x7F6E] @ kw_image @ kw_cache @ asc ''1'' @ kw_hour) init_draft =
     Inr (init_draft\<lparr>cache_rules :=
            [asc ''*.jpg:3600'', asc ''*.jpeg:3600'', asc ''*.png:3600'', asc ''*.gif:3600'']\<rparr>) \<and>
   scan_line (kw_cache @ asc '' 2 '' @ kw_day) init_draft =
     Inr (init_draft\<lparr>cache_rules := [asc ''*:172800'']\<rparr>) \<and>
   scan_line (kw_video @ kw_cache) init_draft =
     Inr (init_draft\<lparr>cache_rules := [asc ''*.mp4:3600'', asc ''*.flv:3600'', asc ''*.m3u8:3600'']\<rparr>)"
proof -
  define l1 where "l1 = [0x8BBE, 0x7F6E] @ kw_image @ kw_cache @ asc ''1'' @ kw_hour"
  define l2 where "l2 = kw_cache @ asc '' 2 '' @ kw_day"
  define l3 where "l3 = kw_video @ kw_cache"
  have a1: "first_category l1 = Some Cache \<and> py_in kw_hour l1 \<and> findall_digits l1 = asc ''1'' # [] \<and>
    length (asc ''1'') + 5 \<le> int_max_str_digits"
    by (simp add: l1_def model_defs)
  have a2: "first_category l2 = Some Cache \<and> \<not> py_in kw_hour l2 \<and> py_in kw_day l2 \<and>
    findall_digits l2 = asc ''2'' # [] \<and> length (asc ''2'') + 5 \<le> int_max_str_digits"
    by (simp add: l2_def model_defs)
  have a3: "first_category l3 = Some Cache \<and> \<not> py_in kw_hour l3 \<and> \<not> py_in kw_day l3"
    by (simp add: l3_def model_defs)
  have v: "digits_value (asc ''1'') = 1" "digits_value (asc ''2'') = 2"
    by (simp_all add: model_defs)
  have p: "py_split 44 (cache_pattern l1) = [asc ''*.jpg'', asc ''*.jpeg'', asc ''*.png'', asc ''*.gif'']"
    "py_split 44 (cache_pattern l2) = [asc ''*'']"
    "py_split 44 (cache_pattern l3) = [asc ''*.mp4'', asc ''*.flv'', asc ''*.m3u8'']"
    by (simp_all add: l1_def l2_def l3_def model_defs)
  have n: "nat_digits 3600 = asc ''3600''" "nat_digits 172800 = asc ''172800''"
    by (simp_all add: model_defs)
  note t = cache_line_ttl [of l1 "asc ''1''" "[]" init_draft l2 "asc ''2''" "[]" init_draft l3 init_draft]
  have r1: "scan_line l1 init_draft =
     Inr (init_draft\<lparr>cache_rules :=
            [asc ''*.jpg:3600'', asc ''*.jpeg:3600'', asc ''*.png:3600'', asc ''*.gif:3600'']\<rparr>)"
    using t a1 by (simp add: v p n) (simp add: init_draft_def asc_def)
  have r2: "scan_line l2 init_draft = Inr (init_draft\<lparr>cache_rules := [asc ''*:172800'']\<rparr>)"
    using t a2 by (simp add: v p n) (simp add: init_draft_def asc_def)
  have r3: "scan_line l3 init_draft =
     Inr (init_draft\<lparr>cache_rules := [asc ''*.mp4:3600'', asc ''*.flv:3600'', asc ''*.m3u8:3600'']\<rparr>)"
    using t a3 by (simp add: v p n) (simp add: init_draft_def asc_def)
  from r1 r2 r3 show ?thesis unfolding l1_def l2_def l3_def by blast
qed

text \<open>The claim as it is written fails: a cache line with a digit and no unit marker
  gets the default of one hour, not the digit as hours.\<close>

theorem cache_line_default_counterexample:
  "py_in kw_cache (kw_cache @ asc ''5'') \<and> findall_digits (kw_cache @ asc ''5'') = [asc ''5''] \<and>
   scan_line (kw_cache @ asc ''5'') init_draft = Inr (init_draft\<lparr>cache_rules := [asc ''*:3600'']\<rparr>)"
  by (simp add: model_defs)


subsection \<open>Lines without the text a branch looks for\<close>

text \<open>
  Claim C10, as amended. A line that is handled by the IP address branch (its first
  matching category; the marker alone does not suffice, since an earlier category may
  take the line) and holds no dotted quad, or that is handled by the port branch and
  holds no run of digits, makes the call raise \<^verbatim>\<open>IndexError\<close> when the lines before it
  were scanned without an exception; no request is made.
\<close>

theorem missing_match_raises:
  assumes "text_lines text = pre @ l # post"
    and "scan_lines pre init_draft = Inr st"
    and "(first_category l = Some IpAddress \<and> findall_quad l = []) \<or>
         (first_category l = Some Port \<and> findall_digits l = [])"
  shows "setup_cdn_with_text cl text = ([], Inl IndexError)"
proof -
  from assms(3) have "scan_line l st = Inl IndexError"
    by (auto simp: first_category_scan first_int_def item0_def)
  then have "scan_lines (text_lines text) init_draft = Inl IndexError"
    by (simp add: assms(1,2) scan_lines_append)
  then show ?thesis by (simp add: setup_cdn_with_text_def)
qed

theorem missing_match_raises_witness:
  "text_lines (asc ''cdn.xiangyuncdn.com'' @ [10] @ kw_ip_address @ asc '' unknown'') =
     [asc ''cdn.xiangyuncdn.com''] @ (kw_ip_address @ asc '' unknown'') # [] \<and>
   scan_lines [asc ''cdn.xiangyuncdn.com''] init_draft =
     Inr (init_draft\<lparr>domain_name := Some (asc ''cdn.xiangyuncdn.com'')\<rparr>) \<and>
   first_category (kw_ip_address @ asc '' unknown'') = Some IpAddress \<and>
   findall_quad (kw_ip_address @ asc '' unknown'') = [] \<and>
   setup_cdn_with_text (\<lambda>tr req. None)
       (asc ''cdn.xiangyuncdn.com'' @ [10] @ kw_ip_address @ asc '' unknown'')
     = ([], Inl IndexError)"
proof -
  let ?t = "asc ''cdn.xiangyuncdn.com'' @ [10] @ kw_ip_address @ asc '' unknown''"
  let ?l = "kw_ip_address @ asc '' unknown''"
  have a: "text_lines ?t = [asc ''cdn.xiangyuncdn.com''] @ ?l # []" by (simp add: model_defs)
  have b: "scan_lines [asc ''cdn.xiangyuncdn.com''] init_draft =
     Inr (init_draft\<lparr>domain_name := Some (asc ''cdn.xiangyuncdn.com'')\<rparr>)" by (simp add: model_defs)
  have c: "first_category ?l = Some IpAddress" by (simp add: model_defs)
  have d: "findall_quad ?l = []" by (simp add: model_defs)
  from c d have e: "(first_category ?l = Some IpAddress \<and> findall_quad ?l = []) \<or>
         (first_category ?l = Some Port \<and> findall_digits ?l = [])" by simp
  from missing_match_raises [OF a b e] a b c d show ?thesis by simp
qed

text \<open>The claim as it is written fails: a line with the IP address marker and no dotted
  quad that also holds the domain suffix is taken as the domain name, and the call returns.\<close>

theorem ip_marker_line_counterexample:
  "py_in kw_ip_address (kw_ip_address @ asc '' a.xiangyuncdn.com'') \<and>
   findall_quad (kw_ip_address @ asc '' a.xiangyuncdn.com'') = [] \<and>
   setup_cdn_with_text (\<lambda>tr req. None) (kw_ip_address @ asc '' a.xiangyuncdn.com'') =
     ([AddCdnDomainRequest (kw_ip_address @ asc '' a.xiangyuncdn.com'')
         [[(asc ''type'', PStr (asc ''ipaddr'')), (asc ''content'', PNone), (asc ''port'', PInt 80)]]
         (asc ''web'')],
      Inr (msg_done @ msg_domain @ kw_ip_address @ asc '' a.xiangyuncdn.com'' @ msg_added))"
  by (simp add: model_defs)

subsection \<open>The origin descriptor normalizer\<close>

text \<open>
  Claim C3 at the input \<^verbatim>\<open>oss://a/oss://b\<close>. The claim asks for the content
  \<^verbatim>\<open>a/oss://b\<close>, the string without its leading prefix. The code calls
  \<^verbatim>\<open>source.replace("oss://", "")\<close>, which removes the later occurrence as well: the
  content is \<^verbatim>\<open>a/b\<close>.
\<close>

theorem parse_source_info_oss_nested:
  "parse_source_info (Str (asc ''oss://'' @ asc ''a/oss://b'')) =
     Inr [(asc ''type'', PStr (asc ''oss'')), (asc ''content'', PStr (asc ''a/b'')),
          (asc ''port'', PInt 80)] \<and>
   asc ''a/b'' \<noteq> asc ''a/oss://b''"
  by (simp add: model_defs)

text \<open>
  Claim C5 at the input of a dotted quad followed by a newline. The claim classifies
  a content as an IP address exactly when it is four groups of one to three digits
  separated by dots. The pattern of the code ends with \<^verbatim>\<open>$\<close>, which also matches before
  a newline that ends the string: the content \<^verbatim>\<open>1.2.3.4\n\<close> is no dotted quad and is
  classified as \<^verbatim>\<open>ipaddr\<close>.
\<close>

theorem parse_source_info_trailing_newline:
  "parse_source_info (Str (asc ''1.2.3.4'' @ [10])) =
     Inr [(asc ''type'', PStr (asc ''ipaddr'')), (asc ''content'', PStr (asc ''1.2.3.4'' @ [10])),
          (asc ''port'', PInt 80)] \<and>
   \<not> is_dotted_quad (asc ''1.2.3.4'' @ [10])"
  by (simp add: model_defs)

subsection \<open>Texts without a domain name, texts without an origin address\<close>

text \<open>
  Claim C7 at a text of one line that holds the IP address marker and nothing else.
  No line of the text holds the domain suffix, so the claim asks for the message that no
  domain name was found. The scan indexes the empty list of matches first and the call
  raises \<^verbatim>\<open>IndexError\<close> (no request is made).
\<close>

theorem setup_no_domain_raises:
  "filter (py_in (asc ''.xiangyuncdn.com'')) (text_lines kw_ip_address) = [] \<and>
   setup_cdn_with_text cl kw_ip_address = ([], Inl IndexError)"
  by (simp add: model_defs)

text \<open>
  Claim C9 at a text with a domain line and a line that holds the port marker and no
  digit. No line holds the IP address marker, so the claim asks for a call of the
  add-domain operation with a descriptor whose content is \<^verbatim>\<open>None\<close>. The scan raises
  \<^verbatim>\<open>IndexError\<close> at the port line and no request is made.
\<close>

theorem setup_no_ip_raises:
  "filter (py_in (asc ''.xiangyuncdn.com''))
     (text_lines (asc ''cdn.xiangyuncdn.com'' @ [10] @ kw_port)) = [asc ''cdn.xiangyuncdn.com''] \<and>
   filter (py_in kw_ip_address) (text_lines (asc ''cdn.xiangyuncdn.com'' @ [10] @ kw_port)) = [] \<and>
   setup_cdn_with_text cl (asc ''cdn.xiangyuncdn.com'' @ [10] @ kw_port) = ([], Inl IndexError)"
  by (simp add: model_defs)

end
